theory Spec2Isabelle
  imports Main "HOL-Library.Monad_Syntax" "HOL-Library.Sublist"
begin

section \<open>Data model of \<open>jaxopt/_src/anderson_wrapper.py\<close>\<close>

text \<open>
  The wrapper is generic in the solver it accelerates and in the numeric containers
  (pytrees) it works on. The embedding keeps that genericity with type variables:
  \<^item> \<open>'p\<close>: a structured value (the parameters of the wrapped solver);
  \<^item> \<open>'s\<close>: the opaque state of the wrapped solver;
  \<^item> \<open>'x\<close>: the extra arguments \<open>*args, **kwargs\<close>, forwarded unchanged;
  \<^item> \<open>'o\<close>: the value of the wrapped solver's optimality function;
  \<^item> \<open>'e\<close>: the scalars (\<open>float\<close> in the source: errors, \<open>tol\<close>, \<open>beta\<close>, \<open>ridge\<close>,
    the entries of the Gram matrix);
  \<^item> \<open>'c\<close>: the optional callable \<open>implicit_diff_solve\<close>.
  Python's \<open>int\<close> is unbounded and is \<open>int\<close> here.
\<close>

datatype py_error = ValueError string

text \<open>\<open>base.AutoOrBoolean\<close>: a string such as \<open>"auto"\<close>, or a boolean.\<close>

datatype AutoOrBoolean = Str string | Bool bool

text \<open>
  \<open>base.IterativeSolver\<close>, as far as the wrapper uses it: the methods \<open>init\<close>, \<open>update\<close> and
  \<open>optimality_fun\<close>, the attribute \<open>error\<close> read from the solver's state, and the
  attributes \<open>maxiter\<close> and \<open>tol\<close>.
\<close>

record ('p, 's, 'x, 'o, 'e) IterativeSolver =
  wrapped_init :: "'p \<Rightarrow> 'x \<Rightarrow> 'p \<times> 's"
  wrapped_update :: "'p \<Rightarrow> 's \<Rightarrow> 'x \<Rightarrow> 'p \<times> 's"
  wrapped_optimality_fun :: "'p \<Rightarrow> 'x \<Rightarrow> 'o"
  state_error :: "'s \<Rightarrow> 'e"
  wrapped_maxiter :: int
  wrapped_tol :: 'e

text \<open>\<open>class AndersonWrapperState(NamedTuple)\<close>.\<close>

record ('p, 's, 'e) AndersonWrapperState =
  iter_num :: int
  solver_state :: 's
  error :: 'e
  params_history :: "'p list"
  residuals_history :: "'p list"
  residual_gram :: "'e list list"

text \<open>\<open>base.OptStep\<close>: the pair of the parameters and the state that every method returns.\<close>

record ('p, 'st) OptStep =
  params :: 'p
  state :: 'st

text \<open>
  The dataclass \<open>AndersonWrapper\<close>: first its declared fields, as the generated
  \<open>__init__\<close> stores them, then the object after \<open>__post_init__\<close>, which has the two
  further attributes \<open>maxiter\<close> and \<open>tol\<close>.
\<close>

record ('p, 's, 'x, 'o, 'e, 'c) AndersonWrapper_fields =
  solver :: "('p, 's, 'x, 'o, 'e) IterativeSolver"
  history_size :: int
  beta :: 'e
  ridge :: 'e
  verbose :: bool
  implicit_diff :: bool
  implicit_diff_solve :: "'c option"
  jit :: AutoOrBoolean
  unroll :: AutoOrBoolean

record ('p, 's, 'x, 'o, 'e, 'c) AndersonWrapper =
  "('p, 's, 'x, 'o, 'e, 'c) AndersonWrapper_fields" +
  maxiter :: int
  tol :: 'e

section \<open>Construction\<close>

text \<open>
  \<open>__post_init__\<close> runs at the end of the generated \<open>__init__\<close>. It either raises
  \<open>ValueError\<close>, and then no object is constructed, or completes the object.
\<close>

definition post_init ::
  "('p, 's, 'x, 'o, 'e, 'c) AndersonWrapper_fields
     \<Rightarrow> py_error + ('p, 's, 'x, 'o, 'e, 'c) AndersonWrapper" where
  "post_init self =
     (let m = wrapped_maxiter (solver self) - history_size self
      in if m < 0
         then Inl (ValueError
           ''Ensure maxiter is greater than history_size otherwise acceleration is impossible.'')
         else Inr \<lparr>solver = solver self, history_size = history_size self,
                   beta = beta self, ridge = ridge self, verbose = verbose self,
                   implicit_diff = implicit_diff self,
                   implicit_diff_solve = implicit_diff_solve self,
                   jit = jit self, unroll = unroll self,
                   maxiter = m, tol = wrapped_tol (solver self)\<rparr>)"

section \<open>The numeric collaborators\<close>

text \<open>
  \<open>tree_sub\<close>, \<open>tree_l2_norm\<close> (module \<open>tree_util\<close>) and \<open>anderson_step\<close> (module
  \<open>anderson\<close>) are imported by the wrapper and work on floating-point containers.
  They are parameters of the embedding, together with the dot product of two
  structured values that the Gram matrix is made of.
\<close>

record ('p, 'e) primitives =
  tree_sub :: "'p \<Rightarrow> 'p \<Rightarrow> 'p"
  tree_vdot :: "'p \<Rightarrow> 'p \<Rightarrow> 'e"
  tree_l2_norm :: "'p \<Rightarrow> 'e"
  anderson_step :: "'p list \<Rightarrow> 'p list \<Rightarrow> 'e list list \<Rightarrow> 'e \<Rightarrow> 'e \<Rightarrow> 'p"

text \<open>
  Modelled from the spec: \<open>build_history\<close> of module \<open>anderson\<close>, which the wrapper imports.
  Given the sequence of warm-up iterates it keeps the sequence as the history of
  iterates, takes the residual of iterate \<open>i\<close> to be \<open>sequence[i+1] - sequence[i]\<close>, and
  computes the whole Gram matrix of the residuals.
\<close>

definition build_history ::
  "('p, 'e) primitives \<Rightarrow> 'p list \<Rightarrow> 'p list \<times> 'p list \<times> 'e list list" where
  "build_history P history =
     (let residuals = map (\<lambda>i. tree_sub P (history ! Suc i) (history ! i))
                          [0 ..< length history - 1]
      in (history, residuals,
          map (\<lambda>ri. map (\<lambda>rj. tree_vdot P ri rj) residuals) residuals))"

text \<open>
  Modelled from the spec: \<open>update_history\<close> of module \<open>anderson\<close>, which the wrapper imports.
  It overwrites the slot at \<open>pos\<close> with the new iterate and the new residual, recomputes
  the row and the column \<open>pos\<close> of the Gram matrix against the stored residuals (the
  diagonal entry is the new residual against itself), leaves every other entry as it
  is, and returns the norm of the new residual as the error. A position outside the
  buffer writes nothing.
\<close>

definition update_history ::
  "('p, 'e) primitives \<Rightarrow> int \<Rightarrow> 'p list \<Rightarrow> 'p list \<Rightarrow> 'e list list \<Rightarrow> 'p \<Rightarrow> 'p
     \<Rightarrow> 'p list \<times> 'p list \<times> 'e list list \<times> 'e" where
  "update_history P pos params_hist residuals_hist gram new_param new_residual =
     (let params_hist' = params_hist[nat pos := new_param];
          residuals_hist' = residuals_hist[nat pos := new_residual];
          new_row = map (\<lambda>r. tree_vdot P r new_residual) residuals_hist';
          gram' = map2 (\<lambda>row v. row[nat pos := v]) (gram[nat pos := new_row]) new_row
      in (params_hist', residuals_hist', gram', tree_l2_norm P new_residual))"

section \<open>The methods of \<open>AndersonWrapper\<close>\<close>

text \<open>
  The loop of \<open>init\<close>: \<open>for _ in range(self.history_size)\<close> calls the wrapped solver's
  \<open>update\<close> and appends the iterate it returns. It carries the three variables the loop
  assigns: \<open>params\<close>, \<open>solver_state\<close> and \<open>history\<close>.
\<close>

fun warmup ::
  "('p, 's, 'x, 'o, 'e) IterativeSolver \<Rightarrow> 'x \<Rightarrow> nat \<Rightarrow> 'p \<Rightarrow> 's \<Rightarrow> 'p list
     \<Rightarrow> 'p \<times> 's \<times> 'p list" where
  "warmup slv args 0 ps st history = (ps, st, history)"
| "warmup slv args (Suc n) ps st history =
     (case wrapped_update slv ps st args of
        (ps', st') \<Rightarrow> warmup slv args n ps' st' (history @ [ps']))"

text \<open>\<open>range(n)\<close> is empty for a negative \<open>n\<close>: the loop runs \<open>nat n\<close> times.\<close>

definition init ::
  "('p, 'e) primitives \<Rightarrow> ('p, 's, 'x, 'o, 'e, 'c) AndersonWrapper \<Rightarrow> 'p \<Rightarrow> 'x
     \<Rightarrow> ('p, ('p, 's, 'e) AndersonWrapperState) OptStep" where
  "init P self init_params args =
     (case wrapped_init (solver self) init_params args of
        (ps0, st0) \<Rightarrow>
          (case warmup (solver self) args (nat (history_size self)) ps0 st0 [ps0] of
             (ps, st, history) \<Rightarrow>
               (case build_history P history of
                  (params_hist, residuals_hist, gram) \<Rightarrow>
                    \<lparr>params = ps,
                     state = \<lparr>iter_num = 0,
                              solver_state = st,
                              error = state_error (solver self) st,
                              params_history = params_hist,
                              residuals_history = residuals_hist,
                              residual_gram = gram\<rparr>\<rparr>)))"

text \<open>
  \<open>update\<close> deletes its first argument at once. The name \<open>extrapolated\<close> is bound twice
  in the source: to the result of \<open>anderson_step\<close>, then to the point that the wrapped
  solver's \<open>init\<close> returns; the two bindings are \<open>extrapolated\<close> and \<open>extrapolated'\<close> here.
  The error that \<open>update_history\<close> returns is unpacked into \<open>err\<close> and not used again.
\<close>

definition update ::
  "('p, 'e) primitives \<Rightarrow> ('p, 's, 'x, 'o, 'e, 'c) AndersonWrapper \<Rightarrow> 'p
     \<Rightarrow> ('p, 's, 'e) AndersonWrapperState \<Rightarrow> 'x
     \<Rightarrow> ('p, ('p, 's, 'e) AndersonWrapperState) OptStep" where
  "update P self ps st args =
     (let params_hist = params_history st;
          residuals_hist = residuals_history st;
          gram = residual_gram st;
          pos = iter_num st mod history_size self;
          extrapolated = anderson_step P params_hist residuals_hist gram
                           (ridge self) (beta self)
      in case wrapped_init (solver self) extrapolated args of
           (extrapolated', sst0) \<Rightarrow>
             (case wrapped_update (solver self) extrapolated' sst0 args of
                (next_params, sst) \<Rightarrow>
                  (let residual = tree_sub P next_params extrapolated'
                   in case update_history P pos params_hist residuals_hist gram
                             extrapolated' residual of
                        (params_hist', residuals_hist', gram', err) \<Rightarrow>
                          \<lparr>params = next_params,
                           state = \<lparr>iter_num = iter_num st + 1,
                                    solver_state = sst,
                                    error = state_error (solver self) sst,
                                    params_history = params_hist',
                                    residuals_history = residuals_hist',
                                    residual_gram = gram'\<rparr>\<rparr>)))"

definition optimality_fun ::
  "('p, 's, 'x, 'o, 'e, 'c) AndersonWrapper \<Rightarrow> 'p \<Rightarrow> 'x \<Rightarrow> 'o" where
  "optimality_fun self ps args = wrapped_optimality_fun (solver self) ps args"

section \<open>Sequences of calls and the object store\<close>

subsection \<open>Sequences of calls\<close>

text \<open>
  The wrapped solver run for \<open>n\<close> steps from a pair of a point and a solver state: \<open>n\<close>
  calls of its \<open>update\<close>, each on the point and the state the previous one returned.
\<close>

fun solver_steps ::
  "('p, 's, 'x, 'o, 'e) IterativeSolver \<Rightarrow> 'x \<Rightarrow> nat \<Rightarrow> 'p \<times> 's \<Rightarrow> 'p \<times> 's" where
  "solver_steps slv args 0 c = c"
| "solver_steps slv args (Suc n) c =
     (case solver_steps slv args n c of (ps, st) \<Rightarrow> wrapped_update slv ps st args)"

text \<open>
  A caller's loop: \<open>update\<close> called once for each element of a list of arguments
  (the first argument and the extra arguments of the call), each on the state the
  previous call returned.
\<close>

fun run_updates ::
  "('p, 'e) primitives \<Rightarrow> ('p, 's, 'x, 'o, 'e, 'c) AndersonWrapper
     \<Rightarrow> ('p, 's, 'e) AndersonWrapperState \<Rightarrow> ('p \<times> 'x) list
     \<Rightarrow> ('p, 's, 'e) AndersonWrapperState" where
  "run_updates P self st [] = st"
| "run_updates P self st ((ps, args) # calls) =
     run_updates P self (state (update P self ps st args)) calls"

text \<open>
  \<open>update\<close> as the claim on its sequence of steps words it: the residual is taken
  against the result of the Anderson step, and that result is what goes into the
  history. It is compared with \<open>update\<close> below.
\<close>

definition update_as_specified ::
  "('p, 'e) primitives \<Rightarrow> ('p, 's, 'x, 'o, 'e, 'c) AndersonWrapper
     \<Rightarrow> ('p, 's, 'e) AndersonWrapperState \<Rightarrow> 'x
     \<Rightarrow> 'p \<times> int \<times> 's \<times> 'p list \<times> 'p list \<times> 'e list list" where
  "update_as_specified P self st args =
     (let position = iter_num st mod history_size self;
          extrapolated = anderson_step P (params_history st) (residuals_history st)
                           (residual_gram st) (ridge self) (beta self)
      in case wrapped_init (solver self) extrapolated args of
           (start, sst0) \<Rightarrow>
             (case wrapped_update (solver self) start sst0 args of
                (next_point, sst) \<Rightarrow>
                  (let residual = tree_sub P next_point extrapolated
                   in case update_history P position (params_history st)
                             (residuals_history st) (residual_gram st)
                             extrapolated residual of
                        (params_hist', residuals_hist', gram', err) \<Rightarrow>
                          (next_point, iter_num st + 1, sst,
                           params_hist', residuals_hist', gram'))))"

text \<open>
  What \<open>update\<close> returns, in the same shape: the next point, the counter, the solver
  state, the two histories and the Gram matrix.
\<close>

definition step_result ::
  "('p, ('p, 's, 'e) AndersonWrapperState) OptStep
     \<Rightarrow> 'p \<times> int \<times> 's \<times> 'p list \<times> 'p list \<times> 'e list list" where
  "step_result r =
     (params r, iter_num (state r), solver_state (state r),
      params_history (state r), residuals_history (state r), residual_gram (state r))"

subsection \<open>Objects and references\<close>

text \<open>
  A Python name holds a reference to an object. The store is the list of the objects
  allocated so far, and a reference is an index into it. The objects the wrapper
  handles are structured values, histories (sequences of structured values), Gram
  matrices, states of the wrapped solver, scalars, and \<open>AndersonWrapperState\<close> tuples,
  whose fields are the counter and five references, in the order of the class:
  \<open>iter_num\<close>, \<open>solver_state\<close>, \<open>error\<close>, \<open>params_history\<close>, \<open>residuals_history\<close>,
  \<open>residual_gram\<close>. An object is changed in place by overwriting its cell; another
  reference to the same cell then sees the change.
\<close>

type_synonym addr = nat

datatype ('p, 's, 'e) pyobj =
    Tree 'p
  | Trees "'p list"
  | Matrix "'e list list"
  | Inner 's
  | Scalar 'e
  | StateObj int addr addr addr addr addr

type_synonym ('p, 's, 'e) store = "('p, 's, 'e) pyobj list"

definition lookup :: "('p, 's, 'e) store \<Rightarrow> addr \<Rightarrow> ('p, 's, 'e) pyobj option" where
  "lookup s a = (if a < length s then Some (s ! a) else None)"

text \<open>
  Everything \<open>update\<close> calls, as it acts on the store: \<open>anderson_step\<close>, the wrapped solver's
  \<open>init\<close> and \<open>update\<close>, the attribute \<open>error\<close> of a solver state, \<open>tree_sub\<close> and
  \<open>update_history\<close>. Each takes references and the store, and returns references and the
  store it leaves, or nothing when it raises. Nothing is fixed about what a callable
  does to the store: it may allocate, and it may overwrite the objects it is given.
\<close>

record ('p, 's, 'x, 'e) callables =
  call_anderson_step ::
    "addr \<Rightarrow> addr \<Rightarrow> addr \<Rightarrow> 'e \<Rightarrow> 'e \<Rightarrow> ('p, 's, 'e) store
       \<Rightarrow> (addr \<times> ('p, 's, 'e) store) option"
  call_init ::
    "addr \<Rightarrow> 'x \<Rightarrow> ('p, 's, 'e) store \<Rightarrow> ((addr \<times> addr) \<times> ('p, 's, 'e) store) option"
  call_update ::
    "addr \<Rightarrow> addr \<Rightarrow> 'x \<Rightarrow> ('p, 's, 'e) store
       \<Rightarrow> ((addr \<times> addr) \<times> ('p, 's, 'e) store) option"
  call_error :: "addr \<Rightarrow> ('p, 's, 'e) store \<Rightarrow> (addr \<times> ('p, 's, 'e) store) option"
  call_tree_sub ::
    "addr \<Rightarrow> addr \<Rightarrow> ('p, 's, 'e) store \<Rightarrow> (addr \<times> ('p, 's, 'e) store) option"
  call_update_history ::
    "int \<Rightarrow> addr \<Rightarrow> addr \<Rightarrow> addr \<Rightarrow> addr \<Rightarrow> addr \<Rightarrow> ('p, 's, 'e) store
       \<Rightarrow> ((addr \<times> addr \<times> addr \<times> addr) \<times> ('p, 's, 'e) store) option"

text \<open>
  \<open>update\<close> on the store, statement by statement as in the source. It reads the fields
  of the tuple that \<open>state\<close> refers to, threads the store through the six calls in the
  order of the source, and builds the new tuple with the constructor of the class,
  which allocates one new cell. The source has no other statement that writes: no
  assignment to an attribute or to an item, only names bound to what the calls return.
  A \<open>state\<close> that is not such a tuple has no field to read, and the call raises.
\<close>

definition update_on_store ::
  "('p, 's, 'x, 'e) callables \<Rightarrow> ('p, 's, 'x, 'o, 'e, 'c) AndersonWrapper \<Rightarrow> addr \<Rightarrow> addr
     \<Rightarrow> 'x \<Rightarrow> ('p, 's, 'e) store
     \<Rightarrow> ((addr, addr) OptStep \<times> ('p, 's, 'e) store) option" where
  "update_on_store C self ps st args store =
     (case lookup store st of
        Some (StateObj k sst_old err_old params_hist residuals_hist gram) \<Rightarrow>
          do {
            let pos = k mod history_size self;
            (extrapolated, s1) \<leftarrow> call_anderson_step C params_hist residuals_hist gram
                                    (ridge self) (beta self) store;
            ((extrapolated', sst0), s2) \<leftarrow> call_init C extrapolated args s1;
            ((next_params, sst), s3) \<leftarrow> call_update C extrapolated' sst0 args s2;
            (residual, s4) \<leftarrow> call_tree_sub C next_params extrapolated' s3;
            ((params_hist', residuals_hist', gram', err), s5) \<leftarrow>
               call_update_history C pos params_hist residuals_hist gram
                 extrapolated' residual s4;
            (solver_err, s6) \<leftarrow> call_error C sst s5;
            Some (\<lparr>params = next_params, state = length s6\<rparr>,
                  s6 @ [StateObj (k + 1) sst solver_err params_hist' residuals_hist' gram'])
          }
      | _ \<Rightarrow> None)"

text \<open>
  The callables that only allocate: whenever one returns, the store it leaves is the
  store it was given followed by new cells. This is what the functions of a library of
  immutable arrays do, and what the spec says of \<open>update_history\<close> (it returns the
  updated histories).
\<close>

definition only_allocate :: "('p, 's, 'x, 'e) callables \<Rightarrow> bool" where
  "only_allocate C \<longleftrightarrow>
     (\<forall>a b c rdg bt s r s'.
        call_anderson_step C a b c rdg bt s = Some (r, s') \<longrightarrow> prefix s s')
   \<and> (\<forall>a args s r s'. call_init C a args s = Some (r, s') \<longrightarrow> prefix s s')
   \<and> (\<forall>a b args s r s'. call_update C a b args s = Some (r, s') \<longrightarrow> prefix s s')
   \<and> (\<forall>a s r s'. call_error C a s = Some (r, s') \<longrightarrow> prefix s s')
   \<and> (\<forall>a b s r s'. call_tree_sub C a b s = Some (r, s') \<longrightarrow> prefix s s')
   \<and> (\<forall>pos a b c d e s r s'.
        call_update_history C pos a b c d e s = Some (r, s') \<longrightarrow> prefix s s')"

text \<open>The value of the object at a reference, for each kind of object.\<close>

definition tree_at :: "('p, 's, 'e) store \<Rightarrow> addr \<Rightarrow> 'p option" where
  "tree_at s a = (case lookup s a of Some (Tree x) \<Rightarrow> Some x | _ \<Rightarrow> None)"

definition trees_at :: "('p, 's, 'e) store \<Rightarrow> addr \<Rightarrow> 'p list option" where
  "trees_at s a = (case lookup s a of Some (Trees xs) \<Rightarrow> Some xs | _ \<Rightarrow> None)"

definition matrix_at :: "('p, 's, 'e) store \<Rightarrow> addr \<Rightarrow> 'e list list option" where
  "matrix_at s a = (case lookup s a of Some (Matrix m) \<Rightarrow> Some m | _ \<Rightarrow> None)"

definition inner_at :: "('p, 's, 'e) store \<Rightarrow> addr \<Rightarrow> 's option" where
  "inner_at s a = (case lookup s a of Some (Inner x) \<Rightarrow> Some x | _ \<Rightarrow> None)"

definition scalar_at :: "('p, 's, 'e) store \<Rightarrow> addr \<Rightarrow> 'e option" where
  "scalar_at s a = (case lookup s a of Some (Scalar x) \<Rightarrow> Some x | _ \<Rightarrow> None)"

text \<open>The state a tuple in the store stands for: its fields, each reference followed.\<close>

definition state_at ::
  "('p, 's, 'e) store \<Rightarrow> addr \<Rightarrow> ('p, 's, 'e) AndersonWrapperState option" where
  "state_at s a =
     (case lookup s a of
        Some (StateObj k sst err ph rh g) \<Rightarrow>
          do {
            sv \<leftarrow> inner_at s sst;
            ev \<leftarrow> scalar_at s err;
            phv \<leftarrow> trees_at s ph;
            rhv \<leftarrow> trees_at s rh;
            gv \<leftarrow> matrix_at s g;
            Some \<lparr>iter_num = k, solver_state = sv, error = ev, params_history = phv,
                  residuals_history = rhv, residual_gram = gv\<rparr>
          }
      | _ \<Rightarrow> None)"

text \<open>
  The callables made of the functions of the value-level embedding: each reads the
  values of its arguments, applies the function and puts the results into new cells.
  A reference to an object of the wrong kind makes the call raise.
\<close>

definition functional_callables ::
  "('p, 'e) primitives \<Rightarrow> ('p, 's, 'x, 'o, 'e) IterativeSolver \<Rightarrow> ('p, 's, 'x, 'e) callables" where
  "functional_callables P slv =
     \<lparr>call_anderson_step = (\<lambda>ph rh g rdg bt s.
        do {
          phv \<leftarrow> trees_at s ph;
          rhv \<leftarrow> trees_at s rh;
          gv \<leftarrow> matrix_at s g;
          Some (length s, s @ [Tree (anderson_step P phv rhv gv rdg bt)])
        }),
      call_init = (\<lambda>p args s.
        do {
          pv \<leftarrow> tree_at s p;
          Some ((length s, Suc (length s)),
                s @ [Tree (fst (wrapped_init slv pv args)),
                     Inner (snd (wrapped_init slv pv args))])
        }),
      call_update = (\<lambda>p st args s.
        do {
          pv \<leftarrow> tree_at s p;
          sv \<leftarrow> inner_at s st;
          Some ((length s, Suc (length s)),
                s @ [Tree (fst (wrapped_update slv pv sv args)),
                     Inner (snd (wrapped_update slv pv sv args))])
        }),
      call_error = (\<lambda>st s.
        do {
          sv \<leftarrow> inner_at s st;
          Some (length s, s @ [Scalar (state_error slv sv)])
        }),
      call_tree_sub = (\<lambda>a b s.
        do {
          av \<leftarrow> tree_at s a;
          bv \<leftarrow> tree_at s b;
          Some (length s, s @ [Tree (tree_sub P av bv)])
        }),
      call_update_history = (\<lambda>pos ph rh g np nr s.
        do {
          phv \<leftarrow> trees_at s ph;
          rhv \<leftarrow> trees_at s rh;
          gv \<leftarrow> matrix_at s g;
          npv \<leftarrow> tree_at s np;
          nrv \<leftarrow> tree_at s nr;
          let h = update_history P pos phv rhv gv npv nrv;
          Some ((length s, length s + 1, length s + 2, length s + 3),
                s @ [Trees (fst h), Trees (fst (snd h)), Matrix (fst (snd (snd h))),
                     Scalar (snd (snd (snd h)))])
        })\<rparr>"

text \<open>
  The same callables, except that \<open>update_history\<close> writes the updated histories and
  Gram matrix over the objects it was given and returns the references it was given.
\<close>

definition inplace_callables ::
  "('p, 'e) primitives \<Rightarrow> ('p, 's, 'x, 'o, 'e) IterativeSolver \<Rightarrow> ('p, 's, 'x, 'e) callables" where
  "inplace_callables P slv =
     (functional_callables P slv)
       \<lparr>call_update_history := (\<lambda>pos ph rh g np nr s.
          do {
            phv \<leftarrow> trees_at s ph;
            rhv \<leftarrow> trees_at s rh;
            gv \<leftarrow> matrix_at s g;
            npv \<leftarrow> tree_at s np;
            nrv \<leftarrow> tree_at s nr;
            let h = update_history P pos phv rhv gv npv nrv;
            Some ((ph, rh, g, length s),
                  s[ph := Trees (fst h), rh := Trees (fst (snd h)),
                    g := Matrix (fst (snd (snd h)))] @ [Scalar (snd (snd (snd h)))])
          })\<rparr>"

section \<open>Concrete instances\<close>

text \<open>
  One-dimensional integer instances, used to evaluate the definitions. The subtraction,
  the dot product and the norm are those of the integers. The Anderson step puts the
  whole weight on slot 0 of the window, which is the exact step for a window of one
  residual.
\<close>

definition int_primitives :: "(int, int) primitives" where
  "int_primitives =
     \<lparr>tree_sub = (\<lambda>a b. a - b),
      tree_vdot = (\<lambda>a b. a * b),
      tree_l2_norm = (\<lambda>a. \<bar>a\<bar>),
      anderson_step = (\<lambda>ph rh g rdg bt.
         (1 - bt) * hd ph + bt * (hd ph + hd rh))\<rparr>"

text \<open>
  A solver that divides the point by 4 at each step. Its state is its error, the
  distance of the new point from the solution 0. Its \<open>init\<close> returns the point as it is.
\<close>

definition quarter_solver :: "int \<Rightarrow> (int, int, unit, int, int) IterativeSolver" where
  "quarter_solver n =
     \<lparr>wrapped_init = (\<lambda>p _. (p, \<bar>p\<bar>)),
      wrapped_update = (\<lambda>p _ _. (p div 4, \<bar>p div 4\<bar>)),
      wrapped_optimality_fun = (\<lambda>p _. p),
      state_error = (\<lambda>s. s),
      wrapped_maxiter = n,
      wrapped_tol = 0\<rparr>"

text \<open>
  The same solver on the multiples of 8: its \<open>init\<close> first moves the point it is given
  down to the nearest multiple of 8.
\<close>

definition grid_solver :: "int \<Rightarrow> (int, int, unit, int, int) IterativeSolver" where
  "grid_solver n =
     \<lparr>wrapped_init = (\<lambda>p _. (8 * (p div 8), \<bar>8 * (p div 8)\<bar>)),
      wrapped_update = (\<lambda>p _ _. (p div 4, \<bar>p div 4\<bar>)),
      wrapped_optimality_fun = (\<lambda>p _. p),
      state_error = (\<lambda>s. s),
      wrapped_maxiter = n,
      wrapped_tol = 0\<rparr>"

text \<open>The declared fields of a wrapper around a solver, with the defaults of the source
  except for the size of the history and the ridge (integers here).\<close>

definition wrapper_fields ::
  "(int, int, unit, int, int) IterativeSolver \<Rightarrow> int
     \<Rightarrow> (int, int, unit, int, int, unit) AndersonWrapper_fields" where
  "wrapper_fields slv h =
     \<lparr>solver = slv, history_size = h, beta = 1, ridge = 0, verbose = False,
      implicit_diff = True, implicit_diff_solve = None,
      jit = Str ''auto'', unroll = Str ''auto''\<rparr>"

text \<open>The wrapper that \<open>__post_init__\<close> completes from these fields when it does not raise.\<close>

definition wrapper_of ::
  "(int, int, unit, int, int) IterativeSolver \<Rightarrow> int
     \<Rightarrow> (int, int, unit, int, int, unit) AndersonWrapper" where
  "wrapper_of slv h =
     \<lparr>solver = slv, history_size = h, beta = 1, ridge = 0, verbose = False,
      implicit_diff = True, implicit_diff_solve = None,
      jit = Str ''auto'', unroll = Str ''auto'',
      maxiter = wrapped_maxiter slv - h, tol = wrapped_tol slv\<rparr>"

text \<open>The two wrappers of the examples: a history of one residual, a budget of 10.\<close>

definition quarter_wrapper :: "(int, int, unit, int, int, unit) AndersonWrapper" where
  "quarter_wrapper = wrapper_of (quarter_solver 10) 1"

definition grid_wrapper :: "(int, int, unit, int, int, unit) AndersonWrapper" where
  "grid_wrapper = wrapper_of (grid_solver 10) 1"

text \<open>
  A store for the first example: the point 16, the objects of the state that \<open>init\<close>
  returns for the initial guess 64, and at reference 6 the tuple of that state.
\<close>

definition quarter_store :: "(int, int, int) store" where
  "quarter_store =
     [Tree 16, Trees [64, 16], Trees [- 48], Matrix [[2304]], Inner 16, Scalar 16,
      StateObj 0 4 5 1 2 3]"

section \<open>Auxiliary facts\<close>

lemmas example_defs =
  quarter_wrapper_def grid_wrapper_def wrapper_of_def wrapper_fields_def
  quarter_solver_def grid_solver_def int_primitives_def

lemma post_init_raises_iff:
  "(\<exists>e. post_init f = Inl e) \<longleftrightarrow> wrapped_maxiter (solver f) < history_size f"
  by (auto simp: post_init_def Let_def)

lemma solver_steps_shift:
  "solver_steps slv args n (wrapped_update slv ps st args) =
     solver_steps slv args (Suc n) (ps, st)"
  by (induction n) simp_all

text \<open>The loop of \<open>init\<close> in closed form: the last pair, and the iterates it appended.\<close>

lemma warmup_eq:
  "warmup slv args n ps st history =
     (fst (solver_steps slv args n (ps, st)), snd (solver_steps slv args n (ps, st)),
      history @ map (\<lambda>i. fst (solver_steps slv args i (ps, st))) [1 ..< Suc n])"
proof (induction n arbitrary: ps st history)
  case 0
  show ?case by simp
next
  case (Suc n)
  obtain ps' st' where u: "wrapped_update slv ps st args = (ps', st')"
    by (cases "wrapped_update slv ps st args")
  have shift: "\<And>i. solver_steps slv args i (ps', st') = solver_steps slv args (Suc i) (ps, st)"
    using solver_steps_shift [of slv args _ ps st] u by simp
  have "map (\<lambda>i. fst (solver_steps slv args i (ps, st))) [1 ..< Suc (Suc n)]
      = fst (solver_steps slv args (Suc 0) (ps, st)) #
        map (\<lambda>i. fst (solver_steps slv args (Suc i) (ps, st))) [1 ..< Suc n]"
    by (simp add: upt_conv_Cons map_Suc_upt [symmetric] del: upt_Suc solver_steps.simps)
  then show ?case
    using Suc.IH [of ps' st' "history @ [ps']"] u shift
    by (simp del: upt_Suc)
qed

lemma init_unfold:
  "init P self p0 args =
   (let c0 = wrapped_init (solver self) p0 args;
        n = nat (history_size self);
        history = map (\<lambda>i. fst (solver_steps (solver self) args i c0)) [0 ..< Suc n];
        final = solver_steps (solver self) args n c0;
        built = build_history P history
    in \<lparr>params = fst final,
        state = \<lparr>iter_num = 0, solver_state = snd final,
                 error = state_error (solver self) (snd final),
                 params_history = fst built,
                 residuals_history = fst (snd built),
                 residual_gram = snd (snd built)\<rparr>\<rparr>)"
proof -
  obtain ps0 st0 where c0: "wrapped_init (solver self) p0 args = (ps0, st0)"
    by (cases "wrapped_init (solver self) p0 args")
  have hist: "[ps0] @ map (\<lambda>i. fst (solver_steps (solver self) args i (ps0, st0)))
                        [1 ..< Suc (nat (history_size self))]
      = map (\<lambda>i. fst (solver_steps (solver self) args i (ps0, st0)))
            [0 ..< Suc (nat (history_size self))]"
    by (simp add: upt_conv_Cons del: upt_Suc)
  show ?thesis
    unfolding init_def c0 Let_def prod.case warmup_eq hist
    by (simp add: case_prod_unfold del: upt_Suc)
qed

lemma build_history_lengths:
  "length (fst (build_history P history)) = length history"
  "length (fst (snd (build_history P history))) = length history - 1"
  by (simp_all add: build_history_def Let_def)

lemma init_lengths:
  "length (params_history (state (init P self p0 args))) = Suc (nat (history_size self))"
  "length (residuals_history (state (init P self p0 args))) = nat (history_size self)"
  by (simp_all add: init_unfold Let_def build_history_lengths del: upt_Suc)

text \<open>The two histories after \<open>update\<close>: one slot of each is overwritten.\<close>

lemma update_histories:
  "params_history (state (update P self ps st args)) =
     (params_history st)[nat (iter_num st mod history_size self) :=
        fst (wrapped_init (solver self)
              (anderson_step P (params_history st) (residuals_history st)
                 (residual_gram st) (ridge self) (beta self)) args)]"
  "residuals_history (state (update P self ps st args)) =
     (residuals_history st)[nat (iter_num st mod history_size self) :=
        tree_sub P (params (update P self ps st args))
          (fst (wrapped_init (solver self)
              (anderson_step P (params_history st) (residuals_history st)
                 (residual_gram st) (ridge self) (beta self)) args))]"
  by (simp_all add: update_def update_history_def Let_def split: prod.splits)

lemma run_updates_lengths:
  "length (params_history (run_updates P self st calls)) = length (params_history st)
   \<and> length (residuals_history (run_updates P self st calls)) = length (residuals_history st)"
proof (induction calls arbitrary: st)
  case Nil
  show ?case by simp
next
  case (Cons c calls)
  obtain ps args where c: "c = (ps, args)" by (cases c)
  show ?case
    using Cons.IH [of "state (update P self ps st args)"]
    by (simp add: c update_histories)
qed

text \<open>The error field that \<open>update\<close> returns is the one of the fresh state of the wrapped solver.\<close>

lemma update_error_field:
  "error (state (update P self ps st args)) =
     state_error (solver self) (solver_state (state (update P self ps st args)))"
  by (simp add: update_def Let_def split: prod.splits)

text \<open>The two examples, evaluated.\<close>

lemma quarter_init:
  "init int_primitives quarter_wrapper 64 () =
     \<lparr>params = 16,
      state = \<lparr>iter_num = 0, solver_state = 16, error = 16,
               params_history = [64, 16], residuals_history = [- 48],
               residual_gram = [[2304]]\<rparr>\<rparr>"
  by (simp add: init_def build_history_def example_defs)

lemma quarter_update:
  "update int_primitives quarter_wrapper ps
     \<lparr>iter_num = 0, solver_state = 16, error = 16,
      params_history = [64, 16], residuals_history = [- 48],
      residual_gram = [[2304]]\<rparr> () =
     \<lparr>params = 4,
      state = \<lparr>iter_num = 1, solver_state = 4, error = 4,
               params_history = [16, 16], residuals_history = [- 12],
               residual_gram = [[144]]\<rparr>\<rparr>"
  by (simp add: update_def update_history_def example_defs)

lemma grid_init:
  "init int_primitives grid_wrapper 80 () =
     \<lparr>params = 20,
      state = \<lparr>iter_num = 0, solver_state = 20, error = 20,
               params_history = [80, 20], residuals_history = [- 60],
               residual_gram = [[3600]]\<rparr>\<rparr>"
  by (simp add: init_def build_history_def example_defs)

text \<open>
  With the second solver the Anderson step gives 20, the solver's \<open>init\<close> moves it to 16,
  and 16 is the point that enters the history: the recorded point is not the raw
  result of the step.
\<close>

lemma grid_update:
  "update int_primitives grid_wrapper ps
     \<lparr>iter_num = 0, solver_state = 20, error = 20,
      params_history = [80, 20], residuals_history = [- 60],
      residual_gram = [[3600]]\<rparr> () =
     \<lparr>params = 4,
      state = \<lparr>iter_num = 1, solver_state = 4, error = 4,
               params_history = [16, 20], residuals_history = [- 12],
               residual_gram = [[144]]\<rparr>\<rparr>"
  by (simp add: update_def update_history_def example_defs)

subsection \<open>\<open>update\<close> on the store\<close>

lemma prefix_nth: "prefix s s' \<Longrightarrow> a < length s \<Longrightarrow> s' ! a = s ! a"
  by (auto simp: prefix_def nth_append)

lemma only_allocateD:
  assumes "only_allocate C"
  shows "call_anderson_step C a b c rdg bt s = Some (r1, s') \<Longrightarrow> prefix s s'"
    and "call_init C a args s = Some (r2, s') \<Longrightarrow> prefix s s'"
    and "call_update C a b args s = Some (r2, s') \<Longrightarrow> prefix s s'"
    and "call_error C a s = Some (r1, s') \<Longrightarrow> prefix s s'"
    and "call_tree_sub C a b s = Some (r1, s') \<Longrightarrow> prefix s s'"
    and "call_update_history C pos a b c d e s = Some (r4, s') \<Longrightarrow> prefix s s'"
  using assms unfolding only_allocate_def by fast+

text \<open>A call of \<open>update\<close> that returns, taken apart into its steps.\<close>

lemma update_on_store_steps:
  assumes "update_on_store C self ps st args store = Some (r, store')"
  shows "\<exists>k sst_old err_old ph rh g extrapolated s1 extrapolated' sst0 s2 next_params sst s3
      residual s4 ph' rh' g' err s5 solver_err s6.
        st < length store
      \<and> store ! st = StateObj k sst_old err_old ph rh g
      \<and> call_anderson_step C ph rh g (ridge self) (beta self) store = Some (extrapolated, s1)
      \<and> call_init C extrapolated args s1 = Some ((extrapolated', sst0), s2)
      \<and> call_update C extrapolated' sst0 args s2 = Some ((next_params, sst), s3)
      \<and> call_tree_sub C next_params extrapolated' s3 = Some (residual, s4)
      \<and> call_update_history C (k mod history_size self) ph rh g extrapolated' residual s4
             = Some ((ph', rh', g', err), s5)
      \<and> call_error C sst s5 = Some (solver_err, s6)
      \<and> r = \<lparr>params = next_params, state = length s6\<rparr>
      \<and> store' = s6 @ [StateObj (k + 1) sst solver_err ph' rh' g']"
  using assms
  apply (simp add: update_on_store_def lookup_def Let_def
       split: if_splits option.splits pyobj.splits)
  apply (simp add: bind_eq_Some_conv)
  apply (elim exE conjE)
  apply (intro exI conjI)
  apply (assumption | rule sym, assumption)+
  done

text \<open>
  With callables that only allocate, \<open>update\<close> only allocates: the store it was given is
  a prefix of the store it leaves, and the tuple it returns is in the last, new cell.
\<close>

lemma update_on_store_allocates:
  assumes alloc: "only_allocate C"
    and run: "update_on_store C self ps st args store = Some (r, store')"
  shows "prefix store store'
       \<and> (\<forall>a < length store. store' ! a = store ! a)
       \<and> length store \<le> state r \<and> state r \<noteq> st
       \<and> Suc (state r) = length store'
       \<and> (\<exists>k sst err ph rh g sst' err' ph' rh' g'.
             store ! st = StateObj k sst err ph rh g
           \<and> store' ! st = StateObj k sst err ph rh g
           \<and> store' ! state r = StateObj (k + 1) sst' err' ph' rh' g')"
proof -
  from update_on_store_steps [OF run]
  obtain k sst_old err_old ph rh g extrapolated s1 extrapolated' sst0 s2 next_params sst s3
      residual s4 ph' rh' g' err s5 solver_err s6
    where st: "st < length store"
      and obj: "store ! st = StateObj k sst_old err_old ph rh g"
      and c1: "call_anderson_step C ph rh g (ridge self) (beta self) store = Some (extrapolated, s1)"
      and c2: "call_init C extrapolated args s1 = Some ((extrapolated', sst0), s2)"
      and c3: "call_update C extrapolated' sst0 args s2 = Some ((next_params, sst), s3)"
      and c4: "call_tree_sub C next_params extrapolated' s3 = Some (residual, s4)"
      and c5: "call_update_history C (k mod history_size self) ph rh g extrapolated' residual s4
             = Some ((ph', rh', g', err), s5)"
      and c6: "call_error C sst s5 = Some (solver_err, s6)"
      and r: "r = \<lparr>params = next_params, state = length s6\<rparr>"
      and store': "store' = s6 @ [StateObj (k + 1) sst solver_err ph' rh' g']"
    by (elim exE conjE) (rule that, assumption+)
  have p1: "prefix store s1" using c1 by (rule only_allocateD [OF alloc])
  have p2: "prefix s1 s2" using c2 by (rule only_allocateD [OF alloc])
  have p3: "prefix s2 s3" using c3 by (rule only_allocateD [OF alloc])
  have p4: "prefix s3 s4" using c4 by (rule only_allocateD [OF alloc])
  have p5: "prefix s4 s5" using c5 by (rule only_allocateD [OF alloc])
  have p6: "prefix s5 s6" using c6 by (rule only_allocateD [OF alloc])
  from p1 p2 p3 p4 p5 p6 have p: "prefix store s6"
    by (meson prefix_order.trans)
  then have pre: "prefix store store'"
    by (simp add: store')
  have len: "length store \<le> length s6"
    using p by (rule prefix_length_le)
  have unchanged: "\<forall>a < length store. store' ! a = store ! a"
    using pre by (simp add: prefix_nth)
  have new: "store' ! state r = StateObj (k + 1) sst solver_err ph' rh' g'"
    by (simp add: r store')
  show ?thesis
    using pre unchanged len st obj new by (auto simp: r store')
qed

lemma functional_callables_only_allocate: "only_allocate (functional_callables P slv)"
  unfolding only_allocate_def functional_callables_def
  by (auto simp: bind_eq_Some_conv Let_def)

lemmas at_defs = lookup_def tree_at_def trees_at_def matrix_at_def inner_at_def scalar_at_def

lemma at_append [simp]:
  "tree_at s a = Some x \<Longrightarrow> tree_at (s @ t) a = Some x"
  "trees_at s a = Some xs \<Longrightarrow> trees_at (s @ t) a = Some xs"
  "matrix_at s a = Some m \<Longrightarrow> matrix_at (s @ t) a = Some m"
  "inner_at s a = Some i \<Longrightarrow> inner_at (s @ t) a = Some i"
  "scalar_at s a = Some e \<Longrightarrow> scalar_at (s @ t) a = Some e"
  by (auto simp: at_defs nth_append split: if_splits)

lemma at_new [simp]:
  "tree_at (s @ Tree x # t) (length s) = Some x"
  "trees_at (s @ Trees xs # t) (length s) = Some xs"
  "matrix_at (s @ Matrix m # t) (length s) = Some m"
  "inner_at (s @ Inner i # t) (length s) = Some i"
  "scalar_at (s @ Scalar e # t) (length s) = Some e"
  by (simp_all add: at_defs)

text \<open>
  With the functional callables, \<open>update\<close> on the store computes what \<open>update\<close> on values
  computes: from a tuple that stands for the state \<open>v\<close> it returns a reference to a tuple
  that stands for the state \<open>update\<close> returns for \<open>v\<close>, and a reference to the point
  \<open>update\<close> returns. Neither depends on the first argument.
\<close>

lemma update_on_store_refines:
  assumes "state_at store st = Some v"
  shows "\<exists>r store'.
           update_on_store (functional_callables P (solver self)) self ps st args store
             = Some (r, store')
         \<and> state_at store' (state r) = Some (state (update P self ps' v args))
         \<and> tree_at store' (params r) = Some (params (update P self ps' v args))"
proof -
  from assms obtain k sst err ph rh g where
    obj: "lookup store st = Some (StateObj k sst err ph rh g)"
    by (auto simp: state_at_def split: option.splits pyobj.splits)
  with assms have v: "inner_at store sst = Some (solver_state v)"
      "scalar_at store err = Some (error v)"
      "trees_at store ph = Some (params_history v)"
      "trees_at store rh = Some (residuals_history v)"
      "matrix_at store g = Some (residual_gram v)"
      "k = iter_num v"
    by (auto simp: state_at_def bind_eq_Some_conv)
  show ?thesis
    apply (simp add: update_on_store_def obj functional_callables_def v Let_def)
    apply (simp add: update_def Let_def state_at_def split_beta at_defs nth_append)
    done
qed

text \<open>The first example on the store.\<close>

lemma quarter_store_state:
  "state_at quarter_store 6 = Some (state (init int_primitives quarter_wrapper 64 ()))"
  by (simp add: quarter_init quarter_store_def state_at_def at_defs)

lemma quarter_on_store:
  "update_on_store (functional_callables int_primitives (solver quarter_wrapper))
     quarter_wrapper 0 6 () quarter_store
   = Some (\<lparr>params = 10, state = 18\<rparr>,
           quarter_store @
           [Tree 16, Tree 16, Inner 16, Tree 4, Inner 4, Tree (- 12),
            Trees [16, 16], Trees [- 12], Matrix [[144]], Scalar 12, Scalar 4,
            StateObj 1 11 17 13 14 15])"
  by (simp add: update_on_store_def functional_callables_def quarter_store_def at_defs
        update_history_def example_defs)

text \<open>
  The same call with an \<open>update_history\<close> that writes in place. The tuple at reference 6
  is as it was, but the histories and the Gram matrix its fields refer to (references
  1, 2 and 3) have changed, and the new tuple shares them: such an \<open>update_history\<close> does
  not only allocate.
\<close>

lemma quarter_on_store_inplace:
  "update_on_store (inplace_callables int_primitives (solver quarter_wrapper))
     quarter_wrapper 0 6 () quarter_store
   = Some (\<lparr>params = 10, state = 15\<rparr>,
           [Tree 16, Trees [16, 16], Trees [- 12], Matrix [[144]], Inner 16, Scalar 16,
            StateObj 0 4 5 1 2 3,
            Tree 16, Tree 16, Inner 16, Tree 4, Inner 4, Tree (- 12), Scalar 12, Scalar 4,
            StateObj 1 11 14 1 2 3])"
  by (simp add: update_on_store_def inplace_callables_def functional_callables_def
        quarter_store_def at_defs update_history_def example_defs)

lemma inplace_callables_overwrite:
  "\<not> only_allocate (inplace_callables int_primitives (solver quarter_wrapper))"
proof
  assume "only_allocate (inplace_callables int_primitives (solver quarter_wrapper))"
  from update_on_store_allocates [OF this quarter_on_store_inplace]
  have "prefix quarter_store
          [Tree 16, Trees [16, 16], Trees [- 12], Matrix [[144]], Inner 16, Scalar 16,
            StateObj 0 4 5 1 2 3,
            Tree 16, Tree 16, Inner 16, Tree 4, Inner 4, Tree (- 12), Scalar 12, Scalar 4,
            StateObj 1 11 14 1 2 3]"
    by (rule conjunct1)
  then show False
    by (simp add: quarter_store_def)
qed

section \<open>Construction: the guard and the exposed budget\<close>

text \<open>
  Claim C2. The claim: construction raises the configuration error whenever the wrapped
  solver's \<open>maxiter\<close> is less than or equal to \<open>history_size\<close>. The source tests
  \<open>self.maxiter < 0\<close> after the subtraction, so at equality nothing is raised, although the
  message of the error asks for a \<open>maxiter\<close> greater than \<open>history_size\<close>. Evaluated at a
  solver with \<open>maxiter = 5\<close> and \<open>history_size = 5\<close> (the default of the source):
  \<open>__post_init__\<close> returns a wrapper, and its own \<open>maxiter\<close> is 0.
\<close>

theorem post_init_accepts_equal_budget:
  "post_init (wrapper_fields (quarter_solver 5) 5) = Inr (wrapper_of (quarter_solver 5) 5)
   \<and> maxiter (wrapper_of (quarter_solver 5) 5) = 0"
  by (simp add: post_init_def wrapper_fields_def wrapper_of_def quarter_solver_def)

text \<open>
  Claim C6. When construction succeeds, the wrapper's \<open>maxiter\<close> is the wrapped solver's
  \<open>maxiter\<close> minus \<open>history_size\<close>, and its \<open>tol\<close> is the wrapped solver's \<open>tol\<close>.
\<close>

theorem post_init_exposes_budget:
  "post_init f = Inr w \<Longrightarrow>
     maxiter w = wrapped_maxiter (solver f) - history_size f
     \<and> tol w = wrapped_tol (solver f)"
  by (auto simp: post_init_def Let_def split: if_splits)

theorem post_init_exposes_budget_witness:
  "post_init (wrapper_fields (quarter_solver 10) 1) = Inr quarter_wrapper
   \<and> maxiter quarter_wrapper = 9 \<and> tol quarter_wrapper = 0"
proof -
  have h: "post_init (wrapper_fields (quarter_solver 10) 1) = Inr quarter_wrapper"
    by (simp add: post_init_def example_defs)
  from post_init_exposes_budget [OF h] show ?thesis
    using h by (simp add: wrapper_fields_def quarter_solver_def)
qed

section \<open>\<open>init\<close>\<close>

text \<open>
  Claim C5. \<open>init\<close> calls the wrapped solver's \<open>init\<close> once, on the initial guess, and
  then its \<open>update\<close> \<open>history_size\<close> times, each call on what the previous one returned.
  The iterates it collects are those after 0, 1, ..., \<open>history_size\<close> updates, in this
  order; \<open>build_history\<close> makes the two histories and the Gram matrix from them. The
  point returned is the last iterate, and the counter of the returned state is 0.
\<close>

theorem init_runs_warmup:
  "init P self p0 args =
   (let c0 = wrapped_init (solver self) p0 args;
        n = nat (history_size self);
        history = map (\<lambda>i. fst (solver_steps (solver self) args i c0)) [0 ..< Suc n];
        final = solver_steps (solver self) args n c0;
        built = build_history P history
    in \<lparr>params = fst final,
        state = \<lparr>iter_num = 0, solver_state = snd final,
                 error = state_error (solver self) (snd final),
                 params_history = fst built,
                 residuals_history = fst (snd built),
                 residual_gram = snd (snd built)\<rparr>\<rparr>)"
  by (rule init_unfold)

section \<open>\<open>update\<close>\<close>

text \<open>
  Claim C1. The claim: the error field of the state that \<open>update\<close> returns is the error
  that \<open>update_history\<close> produced, the norm of the new residual. The source unpacks that
  error and then stores \<open>solver_state.error\<close>, the error of the wrapped solver's fresh
  state. Evaluated on the solver that divides by 4, from the state that \<open>init\<close> returns
  for the initial guess 64: the step starts from 16 and reaches 4, the residual is -12,
  \<open>update_history\<close> returns the error 12, and the error field of the returned state is 4.
\<close>

theorem update_error_field_example:
  "(let st = state (init int_primitives quarter_wrapper 64 ());
        r = update int_primitives quarter_wrapper 0 st ();
        start = fst (wrapped_init (solver quarter_wrapper)
                  (anderson_step int_primitives (params_history st) (residuals_history st)
                     (residual_gram st) (ridge quarter_wrapper) (beta quarter_wrapper)) ());
        residual = tree_sub int_primitives (params r) start
    in start = 16 \<and> params r = 4 \<and> residual = - 12
       \<and> snd (snd (snd (update_history int_primitives
                 (iter_num st mod history_size quarter_wrapper)
                 (params_history st) (residuals_history st) (residual_gram st)
                 start residual))) = 12
       \<and> error (state r) = 4)"
  by (simp add: quarter_init quarter_update)
     (simp add: update_history_def example_defs)

text \<open>
  Claim C3. In every call of \<open>update\<close>, the point written into \<open>params_history\<close> at the
  circular position and the point subtracted from the next point to form the residual
  are the point that the wrapped solver's \<open>init\<close> returns for the result of the Anderson
  step (\<open>start\<close> below), which is also the point the solver's \<open>update\<close> runs from. It is
  the raw result \<open>raw\<close> of the step exactly when the solver's \<open>init\<close> returns \<open>raw\<close> unchanged.
\<close>

theorem update_records_init_point:
  "(let raw = anderson_step P (params_history st) (residuals_history st)
                (residual_gram st) (ridge self) (beta self);
        start = fst (wrapped_init (solver self) raw args);
        r = update P self ps st args;
        pos = iter_num st mod history_size self;
        hist = update_history P pos (params_history st) (residuals_history st)
                 (residual_gram st) start (tree_sub P (params r) start)
    in params r = fst (wrapped_update (solver self) start
                         (snd (wrapped_init (solver self) raw args)) args)
       \<and> params_history (state r) = fst hist
       \<and> residuals_history (state r) = fst (snd hist)
       \<and> residual_gram (state r) = fst (snd (snd hist))
       \<and> fst hist = (params_history st)[nat pos := start]
       \<and> fst (snd hist) = (residuals_history st)[nat pos := tree_sub P (params r) start])"
  by (simp add: update_def update_history_def Let_def split: prod.splits)

text \<open>
  Claim C4. The claim: \<open>update\<close> takes the residual against the result of the Anderson
  step and passes that result and residual to \<open>update_history\<close>. It fails on a solver
  whose \<open>init\<close> moves the point it is given: with the solver on the multiples of 8, from
  the state that \<open>init\<close> returns for the initial guess 80, the Anderson step gives 20, the
  solver starts from 16 and reaches 4; the source records 16 and the residual -12, the
  claim 20 and the residual -16.
\<close>

theorem update_as_specified_differs:
  "step_result (update int_primitives grid_wrapper 0
                  (state (init int_primitives grid_wrapper 80 ())) ())
     = (4, 1, 4, [16, 20], [- 12], [[144]])
   \<and> update_as_specified int_primitives grid_wrapper
        (state (init int_primitives grid_wrapper 80 ())) ()
     = (4, 1, 4, [20, 20], [- 16], [[256]])
   \<and> step_result (update int_primitives grid_wrapper 0
                  (state (init int_primitives grid_wrapper 80 ())) ())
     \<noteq> update_as_specified int_primitives grid_wrapper
        (state (init int_primitives grid_wrapper 80 ())) ()"
  by (simp add: grid_init grid_update step_result_def)
     (simp add: update_as_specified_def update_history_def example_defs)

text \<open>
  Claim C4, amended. For a state with counter \<open>k\<close>, \<open>update\<close> computes the position
  \<open>k mod history_size\<close> and the extrapolated point of the Anderson step, calls the wrapped
  solver's \<open>init\<close> on the extrapolated point and its \<open>update\<close> once on what \<open>init\<close> returns,
  takes the residual of the next point against the point that \<open>init\<close> returned, calls
  \<open>update_history\<close> at the position with that point and that residual, and returns the
  next point with a state whose counter is \<open>k + 1\<close>, whose solver state is the fresh one
  and whose histories and Gram matrix are those of \<open>update_history\<close>.
\<close>

theorem update_sequence:
  "step_result (update P self ps st args) =
   (let position = iter_num st mod history_size self;
        extrapolated = anderson_step P (params_history st) (residuals_history st)
                         (residual_gram st) (ridge self) (beta self);
        started = wrapped_init (solver self) extrapolated args;
        stepped = wrapped_update (solver self) (fst started) (snd started) args;
        next_point = fst stepped;
        residual = tree_sub P next_point (fst started);
        hist = update_history P position (params_history st) (residuals_history st)
                 (residual_gram st) (fst started) residual
    in (next_point, iter_num st + 1, snd stepped,
        fst hist, fst (snd hist), fst (snd (snd hist))))"
  by (simp add: update_def step_result_def Let_def split: prod.splits)

text \<open>
  Claim C7. Two calls of \<open>update\<close> on states that differ at most in \<open>solver_state\<close>, with
  any two first arguments and the same extra arguments, return the same point and the
  same state: \<open>update\<close> reads neither its first argument nor the solver state it is given.
\<close>

theorem update_ignores_params_and_solver_state:
  "update P self ps1 (st\<lparr>solver_state := s1\<rparr>) args =
   update P self ps2 (st\<lparr>solver_state := s2\<rparr>) args"
  by (simp add: update_def)

text \<open>
  Claim C8. In the state that \<open>init\<close> returns and in every state reached from it by calls
  of \<open>update\<close>, \<open>params_history\<close> has \<open>history_size + 1\<close> entries and \<open>residuals_history\<close> has
  \<open>history_size\<close> entries; a further \<open>update\<close> changes each of the two at one position only,
  the circular one.
\<close>

theorem history_sizes_invariant:
  assumes "0 \<le> history_size self"
  shows "(let st = run_updates P self (state (init P self p0 args0)) calls;
              st' = state (update P self ps st args);
              pos = nat (iter_num st mod history_size self)
          in int (length (params_history st)) = history_size self + 1
           \<and> int (length (residuals_history st)) = history_size self
           \<and> (\<exists>v. params_history st' = (params_history st)[pos := v])
           \<and> (\<exists>v. residuals_history st' = (residuals_history st)[pos := v]))"
  using assms run_updates_lengths [of P self "state (init P self p0 args0)" calls]
  by (auto simp: Let_def init_lengths update_histories)

theorem history_sizes_invariant_witness:
  "0 \<le> history_size quarter_wrapper
   \<and> run_updates int_primitives quarter_wrapper
       (state (init int_primitives quarter_wrapper 64 ())) [(0, ()), (0, ())]
     = \<lparr>iter_num = 2, solver_state = 1, error = 1,
        params_history = [4, 16], residuals_history = [- 3],
        residual_gram = [[9]]\<rparr>
   \<and> int (length (params_history (run_updates int_primitives quarter_wrapper
       (state (init int_primitives quarter_wrapper 64 ())) [(0, ()), (0, ())]))) = 2
   \<and> int (length (residuals_history (run_updates int_primitives quarter_wrapper
       (state (init int_primitives quarter_wrapper 64 ())) [(0, ()), (0, ())]))) = 1"
proof -
  have h: "0 \<le> history_size quarter_wrapper"
    by (simp add: example_defs)
  have run: "run_updates int_primitives quarter_wrapper
       (state (init int_primitives quarter_wrapper 64 ())) [(0, ()), (0, ())]
     = \<lparr>iter_num = 2, solver_state = 1, error = 1,
        params_history = [4, 16], residuals_history = [- 3],
        residual_gram = [[9]]\<rparr>"
    by (simp add: quarter_init quarter_update)
       (simp add: update_def update_history_def example_defs)
  from history_sizes_invariant [OF h, of int_primitives 64 "()" "[(0, ()), (0, ())]" 0 "()"]
  show ?thesis using h run by (simp add: Let_def)
qed

section \<open>\<open>optimality_fun\<close>\<close>

text \<open>
  Claim C9. \<open>optimality_fun\<close> returns the value of the wrapped solver's \<open>optimality_fun\<close> at
  the same point with the same extra arguments.
\<close>

theorem optimality_fun_delegates:
  "optimality_fun self ps args = wrapped_optimality_fun (solver self) ps args"
  by (simp add: optimality_fun_def)

section \<open>The caller's state object\<close>

text \<open>
  Claim C10. \<open>update\<close> does not change the state it receives. On the store, with callables
  that only allocate: after a call of \<open>update\<close> that returns, every object allocated
  before the call is as it was, so the tuple the argument refers to and the objects
  its fields refer to are unchanged; the state returned is a new tuple, in a cell that
  did not exist before the call, with the counter one higher.
\<close>

theorem update_on_store_frame:
  assumes "only_allocate C"
    and "update_on_store C self ps st args store = Some (r, store')"
  shows "prefix store store'
       \<and> (\<forall>a < length store. store' ! a = store ! a)
       \<and> length store \<le> state r \<and> state r \<noteq> st
       \<and> Suc (state r) = length store'
       \<and> (\<exists>k sst err ph rh g sst' err' ph' rh' g'.
             store ! st = StateObj k sst err ph rh g
           \<and> store' ! st = StateObj k sst err ph rh g
           \<and> store' ! state r = StateObj (k + 1) sst' err' ph' rh' g')"
  using assms by (rule update_on_store_allocates)

theorem update_on_store_frame_witness:
  "only_allocate (functional_callables int_primitives (solver quarter_wrapper))
   \<and> update_on_store (functional_callables int_primitives (solver quarter_wrapper))
       quarter_wrapper 0 6 () quarter_store
     = Some (\<lparr>params = 10, state = 18\<rparr>,
           quarter_store @
           [Tree 16, Tree 16, Inner 16, Tree 4, Inner 4, Tree (- 12),
            Trees [16, 16], Trees [- 12], Matrix [[144]], Scalar 12, Scalar 4,
            StateObj 1 11 17 13 14 15])
   \<and> (quarter_store @
           [Tree 16, Tree 16, Inner 16, Tree 4, Inner 4, Tree (- 12),
            Trees [16, 16], Trees [- 12], Matrix [[144]], Scalar 12, Scalar 4,
            StateObj 1 11 17 13 14 15]) ! 6 = quarter_store ! 6
   \<and> quarter_store ! 6 = StateObj 0 4 5 1 2 3
   \<and> length quarter_store \<le> 18"
proof -
  have h: "only_allocate (functional_callables int_primitives (solver quarter_wrapper))"
    by (rule functional_callables_only_allocate)
  from update_on_store_frame [OF h quarter_on_store] show ?thesis
    using h quarter_on_store by (simp add: quarter_store_def)
qed

end
